theory Spec2Isabelle
  imports Main "HOL-Library.Option_ord" "HOL-Library.Product_Lexorder"
begin

section \<open>Batches drawn from a cursor\<close>

text \<open>
  The source's \<^verbatim>\<open>batched_cursor_iterator(cursor, batch_size_fn)\<close> is a generator: it
  appends each record of the cursor to a local list \<^verbatim>\<open>batch\<close>, calls
  \<^verbatim>\<open>batch_size_fn()\<close> after every append, and yields the list once its length has reached
  the value just returned; a non-empty rest is yielded when the cursor is exhausted.
  The consumer is a \<^verbatim>\<open>for\<close> loop whose body runs at each yield, interleaved with the
  generator. The embedding is the generator together with its consumer: \<open>body\<close> is the
  loop body, run on each yielded batch, and the state \<open>'s\<close> is threaded through the calls
  of \<open>batch_size_fn\<close> and of the body in the order in which the program makes them.
  The body returns the state and the exception it raised, if any; an exception ends
  the loop.
\<close>

fun batched_loop ::
  "('s \<Rightarrow> int \<times> 's) \<Rightarrow> ('a list \<Rightarrow> 's \<Rightarrow> 's \<times> 'e option) \<Rightarrow> 'a list \<Rightarrow> 'a list \<Rightarrow> 's
    \<Rightarrow> 's \<times> 'e option" where
  "batched_loop batch_size_fn body [] batch s =
     (if length batch \<noteq> 0 then body batch s else (s, None))"
| "batched_loop batch_size_fn body (record # cursor) batch s =
     (let batch' = batch @ [record] in
      case batch_size_fn s of (n, s') \<Rightarrow>
        if int (length batch') \<ge> n
        then (case body batch' s' of
                (s'', Some e) \<Rightarrow> (s'', Some e)
              | (s'', None) \<Rightarrow> batched_loop batch_size_fn body cursor [] s'')
        else batched_loop batch_size_fn body cursor batch' s')"

definition batched_cursor_iterator ::
  "'a list \<Rightarrow> ('s \<Rightarrow> int \<times> 's) \<Rightarrow> ('a list \<Rightarrow> 's \<Rightarrow> 's \<times> 'e option) \<Rightarrow> 's \<Rightarrow> 's \<times> 'e option" where
  "batched_cursor_iterator cursor batch_size_fn body s = batched_loop batch_size_fn body cursor [] s"

text \<open>
  The batches the generator yields, in order, with the state the calls of
  \<open>batch_size_fn\<close> leave: the consumer that only collects what it is given.
\<close>

definition collect :: "'a list \<Rightarrow> 'a list list \<times> 's \<Rightarrow> ('a list list \<times> 's) \<times> unit option" where
  "collect batch = (\<lambda>(bs, s). ((bs @ [batch], s), None))"

definition beside :: "('s \<Rightarrow> int \<times> 's) \<Rightarrow> 'b \<times> 's \<Rightarrow> int \<times> ('b \<times> 's)" where
  "beside batch_size_fn = (\<lambda>(bs, s). case batch_size_fn s of (n, s') \<Rightarrow> (n, (bs, s')))"

definition yielded :: "'a list \<Rightarrow> ('s \<Rightarrow> int \<times> 's) \<Rightarrow> 's \<Rightarrow> 'a list list \<times> 's" where
  "yielded cursor batch_size_fn s =
     fst (batched_cursor_iterator cursor (beside batch_size_fn) collect ([], s))"

text \<open>
  A tunable that another thread assigns while the worker runs shows the worker a
  sequence of values, one at each read. \<open>nth_read sizes\<close> is the \<open>batch_size_fn\<close>
  whose \<open>k\<close>-th call returns \<open>sizes k\<close>; its state is the number of calls made so far.
\<close>

definition nth_read :: "(nat \<Rightarrow> int) \<Rightarrow> nat \<Rightarrow> int \<times> nat" where
  "nth_read sizes k = (sizes k, Suc k)"

section \<open>Documents and the values of the program\<close>

text \<open>
  A document is a Python dict from field names to values: a map, so that equality of
  documents is the equality of dicts (the same keys with the same values, in any
  order). The type \<open>'v\<close> of field values is left open; the values of \<^verbatim>\<open>_id\<close> and of
  the shard field are of this type. An exception is a value of \<open>error\<close>; a function
  that can raise returns \<open>error + 'a\<close>, and one that also changes state returns the
  state it leaves beside it, so that what was written before a raise stays written.
\<close>

type_synonym 'v doc = "string \<Rightarrow> 'v option"

datatype error =
    Exception string
  | KeyError string
  | IndexError
  | ValueError
  | DuplicateKeyError
  | BulkWriteError

definition pick :: "string list \<Rightarrow> 'v doc \<Rightarrow> 'v doc" where
  "pick target_key record = (\<lambda>key. if key \<in> set target_key then record key else None)"

definition without_id :: "'v doc \<Rightarrow> 'v doc" where
  "without_id record = record(''_id'' := None)"

text \<open>\<^verbatim>\<open>merge(*dicts)\<close> builds one dict from the items of its arguments in order, a later
  value replacing an earlier one under the same key; every call passes two dicts.\<close>

definition merge :: "'v doc \<Rightarrow> 'v doc \<Rightarrow> 'v doc" where
  "merge a_dict b_dict = a_dict ++ b_dict"

definition fetch_one :: "'a list \<Rightarrow> 'a option" where
  "fetch_one cursor = (case cursor of [] \<Rightarrow> None | x # _ \<Rightarrow> Some x)"

text \<open>The truth value Python gives the result of \<open>fetch_one\<close>: \<^verbatim>\<open>None\<close> and the empty
  dict are false.\<close>

definition truthy :: "'v doc option \<Rightarrow> bool" where
  "truthy x = (case x of None \<Rightarrow> False | Some d \<Rightarrow> d \<noteq> Map.empty)"

text \<open>\<^verbatim>\<open>pymongo.operations.UpdateOne(filter, {'$set': fields}, upsert=...)\<close>.\<close>

datatype 'v update = Set "'v doc"

datatype 'v update_one = UpdateOne "'v doc" "'v update" bool

definition batch_of_upsert_ops :: "'v doc list \<Rightarrow> string list \<Rightarrow> 'v update_one list" where
  "batch_of_upsert_ops batch target_key =
     map (\<lambda>record. UpdateOne (pick target_key record) (Set (without_id record)) True) batch"

section \<open>Collections and what the database does with them\<close>

text \<open>
  The database is not part of the program. A collection is modelled by its documents
  in natural order and its indexes; the operations are the ones the program calls,
  with the meaning the database gives them for the arguments the program passes:
  a query document matches the documents that carry each of its fields with the same
  value; \<^verbatim>\<open>insert\<close> refuses a second document with the same \<^verbatim>\<open>_id\<close>; \<^verbatim>\<open>update\<close> with
  a whole document replaces the first match and, with \<^verbatim>\<open>upsert\<close>, inserts the document
  when nothing matches; \<^verbatim>\<open>remove\<close> deletes every match.
\<close>

record 'v collection =
  docs :: "'v doc list"
  index_information :: "(string \<times> (string \<times> int) list) list"

definition matches :: "'v doc \<Rightarrow> 'v doc \<Rightarrow> bool" where
  "matches query d = (query \<subseteq>\<^sub>m d)"

definition find_docs :: "'v collection \<Rightarrow> 'v doc \<Rightarrow> 'v doc list" where
  "find_docs collection query = filter (matches query) (docs collection)"

definition insert_doc :: "'v collection \<Rightarrow> 'v doc \<Rightarrow> error + 'v collection" where
  "insert_doc collection d =
     (if \<exists>d' \<in> set (docs collection). d' ''_id'' = d ''_id'' then Inl DuplicateKeyError
      else Inr (collection\<lparr>docs := docs collection @ [d]\<rparr>))"

fun replace_first :: "('a \<Rightarrow> bool) \<Rightarrow> 'a \<Rightarrow> 'a list \<Rightarrow> 'a list" where
  "replace_first P y [] = []"
| "replace_first P y (x # xs) = (if P x then y # xs else x # replace_first P y xs)"

definition update_doc :: "'v collection \<Rightarrow> 'v doc \<Rightarrow> 'v doc \<Rightarrow> bool \<Rightarrow> 'v collection" where
  "update_doc collection spec document upsert =
     (if \<exists>d \<in> set (docs collection). matches spec d
      then collection\<lparr>docs := replace_first (matches spec) document (docs collection)\<rparr>
      else if upsert then collection\<lparr>docs := docs collection @ [document]\<rparr>
      else collection)"

definition remove :: "'v collection \<Rightarrow> 'v doc \<Rightarrow> 'v collection" where
  "remove collection spec = collection\<lparr>docs := filter (\<lambda>d. \<not> matches spec d) (docs collection)\<rparr>"

text \<open>\<^verbatim>\<open>delete_many({'_id': {'$in': _ids}})\<close>: the collection left, and the number of
  documents deleted (\<^verbatim>\<open>raw_result['n']\<close>).\<close>

definition id_in :: "'v list \<Rightarrow> 'v doc \<Rightarrow> bool" where
  "id_in ids d = (case d ''_id'' of None \<Rightarrow> False | Some i \<Rightarrow> i \<in> set ids)"

definition delete_many :: "'v collection \<Rightarrow> 'v list \<Rightarrow> 'v collection \<times> int" where
  "delete_many collection ids =
     (collection\<lparr>docs := filter (\<lambda>d. \<not> id_in ids d) (docs collection)\<rparr>,
      int (length (filter (id_in ids) (docs collection))))"

definition ASCENDING :: int where
  "ASCENDING = 1"

definition shard_field_id_index :: "'v collection \<Rightarrow> string \<Rightarrow> (string \<times> int) list option" where
  "shard_field_id_index collection shard_field =
     (let index_key = [(shard_field, ASCENDING), (''_id'', ASCENDING)] in
      if \<exists>index \<in> set (index_information collection). snd index = index_key
      then Some index_key else None)"

section \<open>The routing store, the clusters and the oplog\<close>

text \<open>
  The shard statuses, the realm and the shard metadata are declared in the metadata
  module, which is not among the sources; they are taken from the specification's data
  model. A location \<^verbatim>\<open>cluster/database\<close> is kept as the pair that \<^verbatim>\<open>parse_location\<close>
  returns. \<^verbatim>\<open>new_location\<close> is set only during a migration.
\<close>

datatype shard_status =
    AT_REST
  | MIGRATING_COPY
  | MIGRATING_SYNC
  | POST_MIGRATION_PAUSED_AT_DESTINATION
  | POST_MIGRATION_DELETE

definition MIGRATION_PHASES :: "shard_status list" where
  "MIGRATION_PHASES =
     [MIGRATING_COPY, MIGRATING_SYNC, POST_MIGRATION_PAUSED_AT_DESTINATION, POST_MIGRATION_DELETE]"

type_synonym location = "string \<times> string"

record realm =
  realm_name :: string
  shard_field :: string

record 'v shard_metadata =
  realm :: string
  shard_key :: 'v
  status :: shard_status
  location :: location
  new_location :: "location option"

text \<open>
  An oplog entry: \<^verbatim>\<open>ts\<close> (a timestamp, totally ordered, here a natural number),
  \<^verbatim>\<open>ns\<close>, \<^verbatim>\<open>op\<close>, the payload \<^verbatim>\<open>o\<close> and, on updates, the selector \<^verbatim>\<open>o2\<close>.
\<close>

record 'v entry =
  entry_ts :: nat
  entry_ns :: string
  entry_op :: string
  entry_o :: "'v doc"
  entry_o2 :: "'v doc option"

text \<open>A document of \<^verbatim>\<open>config.collections\<close>: its \<^verbatim>\<open>_id\<close> (the namespace), \<^verbatim>\<open>dropped\<close>
  and the field names of \<^verbatim>\<open>key\<close>, each of the last two where the document has it.\<close>

record config_entry =
  cfg_id :: string
  cfg_dropped :: "bool option"
  cfg_key :: "string list option"

text \<open>
  A node is what one connection reaches: the collections of its databases, its
  \<^verbatim>\<open>local.oplog.rs\<close> in natural order, and its \<^verbatim>\<open>config.collections\<close>
  (\<open>None\<close> when reading it fails with \<^verbatim>\<open>OperationFailure\<close>).
\<close>

record 'v node =
  databases :: "string \<Rightarrow> string \<Rightarrow> 'v collection"
  oplog_rs :: "'v entry list"
  config_collections :: "config_entry list option"

text \<open>A collection on a cluster's primary: cluster, database name, collection name.\<close>

type_synonym handle = "string \<times> string \<times> string"

datatype 'v request =
    BulkWrite handle "'v update_one list" bool
  | DeleteMany handle "'v list"

text \<open>
  The world of the worker: the routing store (realms, shards, the caching duration),
  the primary of each cluster and its hidden secondary where one is configured, and
  the worker threads started. What a bulk write does to a collection is decided by
  the server (an upsert whose filter has no \<^verbatim>\<open>_id\<close> is given a generated one), so it
  is a field of the world: the collection left, and the error or \<^verbatim>\<open>nUpserted\<close>.
  \<open>requests\<close> records the bulk writes and the \<^verbatim>\<open>delete_many\<close> calls sent, in order.
\<close>

record 'v world =
  realms :: "string \<Rightarrow> realm"
  shards_coll :: "'v shard_metadata list"
  caching_duration :: int
  primary :: "string \<Rightarrow> 'v node"
  hidden_secondary :: "string \<Rightarrow> 'v node option"
  server_bulk_write :: "'v update_one list \<Rightarrow> bool \<Rightarrow> 'v collection \<Rightarrow> 'v collection \<times> (error + int)"
  requests :: "'v request list"
  threads :: "(string \<times> 'v \<times> location) list"

definition coll :: "'v world \<Rightarrow> handle \<Rightarrow> 'v collection" where
  "coll w h = (case h of (cluster, db, name) \<Rightarrow> databases (primary w cluster) db name)"

definition put_coll :: "'v world \<Rightarrow> handle \<Rightarrow> 'v collection \<Rightarrow> 'v world" where
  "put_coll w h c =
     (case h of (cluster, db, name) \<Rightarrow>
        w\<lparr>primary := (primary w)(cluster := (primary w cluster)
             \<lparr>databases := (databases (primary w cluster))
                (db := (databases (primary w cluster) db)(name := c))\<rparr>)\<rparr>)"

definition get_collection_from_location_string :: "location \<Rightarrow> string \<Rightarrow> handle" where
  "get_collection_from_location_string loc collection_name =
     (case loc of (server_addr, database_name) \<Rightarrow> (server_addr, database_name, collection_name))"

text \<open>Modelled from the spec: \<^verbatim>\<open>metadata._get_realm_for_collection\<close> is not among the
  sources; it returns the realm (its name and shard field) that governs the collection.\<close>

definition get_realm_for_collection :: "'v world \<Rightarrow> string \<Rightarrow> realm" where
  "get_realm_for_collection w collection_name = realms w collection_name"

text \<open>The tuple assignment \<^verbatim>\<open>shard_metadata, = shards_coll.find(...)\<close> raises
  \<^verbatim>\<open>ValueError\<close> unless exactly one document is found.\<close>

definition get_metadata_for_shard :: "'v world \<Rightarrow> string \<Rightarrow> 'v \<Rightarrow> error + 'v shard_metadata" where
  "get_metadata_for_shard w the_realm key =
     (case filter (\<lambda>s. realm s = the_realm \<and> shard_key s = key) (shards_coll w) of
        [shard_metadata] \<Rightarrow> Inr shard_metadata
      | _ \<Rightarrow> Inl ValueError)"

text \<open>The collection to read from, as the connection chosen and the names: the hidden
  secondary of the cluster if one is configured and asked for, else the primary.\<close>

definition get_source_collection_for_reading ::
  "'v world \<Rightarrow> 'v shard_metadata \<Rightarrow> string \<Rightarrow> bool \<Rightarrow> 'v node \<times> string \<times> string" where
  "get_source_collection_for_reading w shard_metadata collection_name use_hidden_secondary =
     (case location shard_metadata of (cluster_name, db_name) \<Rightarrow>
        (if use_hidden_secondary
         then (case hidden_secondary w cluster_name of
                 Some connection \<Rightarrow> connection
               | None \<Rightarrow> primary w cluster_name)
         else primary w cluster_name,
         db_name, collection_name))"

definition read_coll :: "'v node \<times> string \<times> string \<Rightarrow> 'v collection" where
  "read_coll r = (case r of (connection, db, name) \<Rightarrow> databases connection db name)"

definition get_oplog_pos :: "string \<Rightarrow> 'v \<Rightarrow> 'v world \<Rightarrow> error + nat" where
  "get_oplog_pos collection_name key w =
     (let the_realm = get_realm_for_collection w collection_name in
      case get_metadata_for_shard w (realm_name the_realm) key of
        Inl e \<Rightarrow> Inl e
      | Inr shard_metadata \<Rightarrow>
          (case get_source_collection_for_reading w shard_metadata collection_name True of
             (current_conn, _) \<Rightarrow>
               (case rev (oplog_rs current_conn) of
                  [] \<Rightarrow> Inl IndexError
                | most_recent_op # _ \<Rightarrow> Inr (entry_ts most_recent_op))))"

definition oplog_still_contains_ts :: "'v world \<Rightarrow> handle \<Rightarrow> nat \<Rightarrow> error + bool" where
  "oplog_still_contains_ts w collection oplog_pos =
     (case collection of (cluster, _) \<Rightarrow>
        (case oplog_rs (primary w cluster) of
           [] \<Rightarrow> Inl IndexError
         | oldest_op # _ \<Rightarrow> Inr (oplog_pos \<ge> entry_ts oldest_op)))"

definition tail_oplog_for_collection :: "'v world \<Rightarrow> handle \<Rightarrow> nat \<Rightarrow> 'v entry list" where
  "tail_oplog_for_collection w collection oplog_pos =
     (case collection of (cluster, db, name) \<Rightarrow>
        filter (\<lambda>e. entry_ts e \<ge> oplog_pos \<and> entry_ns e = db @ ''.'' @ name)
          (oplog_rs (primary w cluster)))"

section \<open>The sync engine\<close>

definition replay_oplog_entry ::
  "'v entry \<Rightarrow> 'v doc \<Rightarrow> 'v collection \<Rightarrow> 'v collection \<Rightarrow> error + 'v collection" where
  "replay_oplog_entry entry shard_selector source target =
     (if entry_op entry = ''i'' then
        (case entry_o entry ''_id'' of
           None \<Rightarrow> Inl (KeyError ''_id'')
         | Some i \<Rightarrow>
             (let query = merge shard_selector [''_id'' \<mapsto> i] in
              if truthy (fetch_one (find_docs source query))
              then (case insert_doc target (entry_o entry) of
                      Inl e \<Rightarrow> if e = DuplicateKeyError then Inr target else Inl e
                    | Inr target' \<Rightarrow> Inr target')
              else Inr target))
      else if entry_op entry = ''u'' then
        (case entry_o2 entry of
           None \<Rightarrow> Inl (KeyError ''o2'')
         | Some o2 \<Rightarrow>
             (case o2 ''_id'' of
                None \<Rightarrow> Inl (KeyError ''_id'')
              | Some i \<Rightarrow>
                  (let query = merge shard_selector [''_id'' \<mapsto> i];
                       source_document = fetch_one (find_docs source query) in
                   if truthy source_document
                   then (case source_document of
                           None \<Rightarrow> Inr target
                         | Some sd \<Rightarrow>
                             if \<not> sd = entry_o entry
                             then (case sd ''_id'' of
                                     None \<Rightarrow> Inl (KeyError ''_id'')
                                   | Some sid \<Rightarrow> Inr (update_doc target [''_id'' \<mapsto> sid] sd True))
                             else Inr target)
                   else Inr target)))
      else if entry_op entry = ''d'' then
        (case entry_o entry ''_id'' of
           None \<Rightarrow> Inl (KeyError ''_id'')
         | Some i \<Rightarrow>
             (let query = merge shard_selector [''_id'' \<mapsto> i] in
              if truthy (fetch_one (find_docs target query))
              then Inr (remove target [''_id'' \<mapsto> i])
              else Inr target))
      else Inr target)"

text \<open>The loop of \<^verbatim>\<open>_sync_from_oplog\<close> over the tailed entries: each entry is replayed
  on the collections as they are then, and \<^verbatim>\<open>oplog_pos\<close> becomes its \<^verbatim>\<open>ts\<close>.\<close>

fun sync_entries ::
  "'v entry list \<Rightarrow> 'v doc \<Rightarrow> handle \<Rightarrow> handle \<Rightarrow> nat \<Rightarrow> 'v world \<Rightarrow> 'v world \<times> (error + nat)" where
  "sync_entries [] shard_selector source target oplog_pos w = (w, Inr oplog_pos)"
| "sync_entries (entry # cursor) shard_selector source target oplog_pos w =
     (case replay_oplog_entry entry shard_selector (coll w source) (coll w target) of
        Inl e \<Rightarrow> (w, Inl e)
      | Inr target' \<Rightarrow>
          sync_entries cursor shard_selector source target (entry_ts entry)
            (put_coll w target target'))"

definition sync_from_oplog :: "string \<Rightarrow> 'v \<Rightarrow> nat \<Rightarrow> 'v world \<Rightarrow> 'v world \<times> (error + nat)" where
  "sync_from_oplog collection_name key oplog_pos w =
     (let the_realm = get_realm_for_collection w collection_name in
      case get_metadata_for_shard w (realm_name the_realm) key of
        Inl e \<Rightarrow> (w, Inl e)
      | Inr shard_metadata \<Rightarrow>
          (let source = get_collection_from_location_string (location shard_metadata) collection_name in
           case new_location shard_metadata of
             None \<Rightarrow> (w, Inl (KeyError ''new_location''))
           | Some the_new_location \<Rightarrow>
               (let target = get_collection_from_location_string the_new_location collection_name in
                case oplog_still_contains_ts w source oplog_pos of
                  Inl e \<Rightarrow> (w, Inl e)
                | Inr still \<Rightarrow>
                    if \<not> still
                    then (w, Inl (Exception ''Cannot sync from oplog as oplog_pos is not in it''))
                    else sync_entries (tail_oplog_for_collection w source oplog_pos)
                           [shard_field the_realm \<mapsto> key] source target oplog_pos w)))"

section \<open>The manager, the copy engine and the delete engine\<close>

text \<open>Throttles are durations or \<^verbatim>\<open>None\<close>; \<^verbatim>\<open>tum_ti_tum\<close> only sleeps, which changes
  nothing in this model, so the calls of it are left out.\<close>

record 'v manager =
  collection_name :: string
  m_shard_key :: 'v
  m_new_location :: location
  delete_throttle :: "int option"
  insert_throttle :: "int option"
  delete_batch_size :: int
  insert_batch_size :: int
  inserted :: int
  deleted :: int
  phase :: "string option"

definition ShardMovementManager ::
  "string \<Rightarrow> 'v \<Rightarrow> location \<Rightarrow> int option \<Rightarrow> int option \<Rightarrow> int \<Rightarrow> int \<Rightarrow> 'v manager" where
  "ShardMovementManager the_collection key the_new_location the_delete_throttle
     the_insert_throttle the_delete_batch_size the_insert_batch_size =
     \<lparr>collection_name = the_collection, m_shard_key = key, m_new_location = the_new_location,
      delete_throttle = the_delete_throttle, insert_throttle = the_insert_throttle,
      delete_batch_size = the_delete_batch_size, insert_batch_size = the_insert_batch_size,
      inserted = 0, deleted = 0, phase = None\<rparr>"

definition inc_inserted :: "'v manager \<Rightarrow> int \<Rightarrow> 'v manager" where
  "inc_inserted manager by = manager\<lparr>inserted := inserted manager + by\<rparr>"

definition inc_deleted :: "'v manager \<Rightarrow> int \<Rightarrow> 'v manager" where
  "inc_deleted manager by = manager\<lparr>deleted := deleted manager + by\<rparr>"

definition set_phase :: "string \<Rightarrow> 'v world \<times> 'v manager \<Rightarrow> 'v world \<times> 'v manager" where
  "set_phase the_phase = (\<lambda>(w, manager). (w, manager\<lparr>phase := Some the_phase\<rparr>))"

definition sniff_mongos_shard_key :: "'v world \<Rightarrow> handle \<Rightarrow> error + string list option" where
  "sniff_mongos_shard_key w collection =
     (case collection of (cluster, db, name) \<Rightarrow>
        (case config_collections (primary w cluster) of
           None \<Rightarrow> Inr None
         | Some entries \<Rightarrow>
             (case filter (\<lambda>i. cfg_id i = db @ ''.'' @ name \<and> cfg_dropped i = Some False) entries of
                [] \<Rightarrow> Inr None
              | info # _ \<Rightarrow>
                  (case cfg_key info of
                     None \<Rightarrow> Inl (KeyError ''key'')
                   | Some key \<Rightarrow> Inr (Some key)))))"

text \<open>\<^verbatim>\<open>sniff_mongos_shard_key(target_collection) or ['_id']\<close>: \<^verbatim>\<open>None\<close> and the empty
  list are false.\<close>

definition or_id :: "string list option \<Rightarrow> string list" where
  "or_id sniffed = (case sniffed of None \<Rightarrow> [''_id''] | Some key \<Rightarrow> if key = [] then [''_id''] else key)"

definition bulk_write ::
  "'v world \<Rightarrow> handle \<Rightarrow> 'v update_one list \<Rightarrow> bool \<Rightarrow> 'v world \<times> (error + int)" where
  "bulk_write w collection ops ordered =
     (case server_bulk_write w ops ordered (coll w collection) of
        (c', result) \<Rightarrow>
          (put_coll (w\<lparr>requests := requests w @ [BulkWrite collection ops ordered]\<rparr>) collection c',
           result))"

definition delete_many_ids :: "'v world \<Rightarrow> handle \<Rightarrow> 'v list \<Rightarrow> 'v world \<times> int" where
  "delete_many_ids w collection ids =
     (case delete_many (coll w collection) ids of
        (c', n) \<Rightarrow>
          (put_coll (w\<lparr>requests := requests w @ [DeleteMany collection ids]\<rparr>) collection c', n))"

text \<open>A cursor over the documents of the shard: sorted by the index on
  \<^verbatim>\<open>(shard_field, _id)\<close> when the collection has one, in natural order otherwise.\<close>

definition shard_cursor :: "('v::linorder) collection \<Rightarrow> string \<Rightarrow> 'v \<Rightarrow> 'v doc list" where
  "shard_cursor collection the_shard_field key =
     (let cursor = find_docs collection [the_shard_field \<mapsto> key] in
      case shard_field_id_index collection the_shard_field of
        None \<Rightarrow> cursor
      | Some index_key \<Rightarrow> sort_key (\<lambda>d. (d the_shard_field, d ''_id'')) cursor)"

text \<open>The body of the loop of \<^verbatim>\<open>_do_copy\<close>, run on each batch.\<close>

definition copy_batch ::
  "handle \<Rightarrow> string list \<Rightarrow> 'v doc list \<Rightarrow> 'v world \<times> 'v manager
    \<Rightarrow> ('v world \<times> 'v manager) \<times> error option" where
  "copy_batch target_collection target_key batch = (\<lambda>(w, manager).
     case bulk_write w target_collection (batch_of_upsert_ops batch target_key) True of
       (w', Inl e) \<Rightarrow> ((w', manager), Some e)
     | (w', Inr nUpserted) \<Rightarrow> ((w', inc_inserted manager nUpserted), None))"

definition do_copy ::
  "string \<Rightarrow> ('v::linorder) \<Rightarrow> 'v world \<times> 'v manager \<Rightarrow> ('v world \<times> 'v manager) \<times> error option" where
  "do_copy the_collection key = (\<lambda>(w, manager).
     let the_realm = get_realm_for_collection w the_collection in
     case get_metadata_for_shard w (realm_name the_realm) key of
       Inl e \<Rightarrow> ((w, manager), Some e)
     | Inr shard_metadata \<Rightarrow>
         if status shard_metadata \<noteq> MIGRATING_COPY
         then ((w, manager), Some (Exception ''Shard not in copy state (phase 1)''))
         else
           (let source_collection =
                  get_source_collection_for_reading w shard_metadata the_collection True in
            case new_location shard_metadata of
              None \<Rightarrow> ((w, manager), Some (KeyError ''new_location''))
            | Some the_new_location \<Rightarrow>
                (let target_collection =
                       get_collection_from_location_string the_new_location the_collection in
                 case sniff_mongos_shard_key w target_collection of
                   Inl e \<Rightarrow> ((w, manager), Some e)
                 | Inr sniffed \<Rightarrow>
                     (let target_key = or_id sniffed;
                          cursor = shard_cursor (read_coll source_collection) (shard_field the_realm) key
                      in batched_cursor_iterator cursor
                           (\<lambda>(w, manager). (insert_batch_size manager, (w, manager)))
                           (copy_batch target_collection target_key) (w, manager)))))"

text \<open>The body of the loop of \<^verbatim>\<open>_delete_source_data\<close>; the cursor projects each
  document on its \<^verbatim>\<open>_id\<close>.\<close>

definition delete_batch ::
  "handle \<Rightarrow> 'v doc list \<Rightarrow> 'v world \<times> 'v manager \<Rightarrow> ('v world \<times> 'v manager) \<times> error option" where
  "delete_batch current_collection batch = (\<lambda>(w, manager).
     if \<exists>record \<in> set batch. record ''_id'' = None then ((w, manager), Some (KeyError ''_id''))
     else (case delete_many_ids w current_collection (List.map_filter (\<lambda>record. record ''_id'') batch) of
             (w', n) \<Rightarrow> ((w', inc_deleted manager n), None)))"

definition delete_source_data ::
  "string \<Rightarrow> ('v::linorder) \<Rightarrow> bool \<Rightarrow> 'v world \<times> 'v manager
    \<Rightarrow> ('v world \<times> 'v manager) \<times> error option" where
  "delete_source_data the_collection key use_hidden_secondary = (\<lambda>(w, manager).
     let the_realm = get_realm_for_collection w the_collection in
     case get_metadata_for_shard w (realm_name the_realm) key of
       Inl e \<Rightarrow> ((w, manager), Some e)
     | Inr shard_metadata \<Rightarrow>
         if status shard_metadata \<noteq> POST_MIGRATION_DELETE
         then ((w, manager), Some (Exception ''Shard not in delete state''))
         else
           (let current_collection =
                  get_collection_from_location_string (location shard_metadata) the_collection;
                read_collection =
                  get_source_collection_for_reading w shard_metadata the_collection use_hidden_secondary;
                cursor = map (pick [''_id''])
                           (shard_cursor (read_coll read_collection) (shard_field the_realm) key)
            in batched_cursor_iterator cursor
                 (\<lambda>(w, manager). (delete_batch_size manager, (w, manager)))
                 (delete_batch current_collection) (w, manager)))"

section \<open>The migration driver\<close>

text \<open>
  Modelled from the spec: the functions of the routing store that the driver calls
  (\<^verbatim>\<open>api.start_migration\<close>, \<^verbatim>\<open>api.set_shard_to_migration_status\<close>,
  \<^verbatim>\<open>api.set_shard_at_rest\<close>, \<^verbatim>\<open>api.get_caching_duration\<close> and
  \<^verbatim>\<open>metadata.are_migrations_happening\<close>) are not among the sources. The spec gives:
  \<^verbatim>\<open>start_migration\<close> is the atomic transition from \<^verbatim>\<open>AT_REST\<close> to \<^verbatim>\<open>MIGRATING_COPY\<close>
  and sets \<^verbatim>\<open>new_location\<close> (no other transition is given, so here it raises for a shard
  in another status); \<^verbatim>\<open>set_shard_to_migration_status\<close> sets the status;
  \<^verbatim>\<open>set_shard_at_rest\<close> commits the shard to \<^verbatim>\<open>AT_REST\<close> at the location given;
  \<^verbatim>\<open>are_migrations_happening\<close> holds when some shard is in a status of
  \<^verbatim>\<open>MIGRATION_PHASES\<close>.
\<close>

definition on_shard ::
  "string \<Rightarrow> 'v \<Rightarrow> ('v shard_metadata \<Rightarrow> 'v shard_metadata) \<Rightarrow> 'v world \<Rightarrow> 'v world" where
  "on_shard the_realm key f w =
     w\<lparr>shards_coll := map (\<lambda>s. if realm s = the_realm \<and> shard_key s = key then f s else s)
                         (shards_coll w)\<rparr>"

definition api_start_migration :: "string \<Rightarrow> 'v \<Rightarrow> location \<Rightarrow> 'v world \<Rightarrow> 'v world \<times> error option" where
  "api_start_migration the_collection key the_new_location w =
     (let the_realm = get_realm_for_collection w the_collection in
      case get_metadata_for_shard w (realm_name the_realm) key of
        Inl e \<Rightarrow> (w, Some e)
      | Inr shard_metadata \<Rightarrow>
          if status shard_metadata = AT_REST
          then (on_shard (realm_name the_realm) key
                  (\<lambda>s. s\<lparr>status := MIGRATING_COPY, new_location := Some the_new_location\<rparr>) w, None)
          else (w, Some (Exception ''Shard is not at rest'')))"

definition set_shard_to_migration_status :: "string \<Rightarrow> 'v \<Rightarrow> shard_status \<Rightarrow> 'v world \<Rightarrow> 'v world" where
  "set_shard_to_migration_status the_collection key the_status w =
     on_shard (realm_name (get_realm_for_collection w the_collection)) key
       (\<lambda>s. s\<lparr>status := the_status\<rparr>) w"

definition set_shard_at_rest :: "string \<Rightarrow> 'v \<Rightarrow> location \<Rightarrow> 'v world \<Rightarrow> 'v world" where
  "set_shard_at_rest the_collection key the_location w =
     on_shard (realm_name (get_realm_for_collection w the_collection)) key
       (\<lambda>s. s\<lparr>status := AT_REST, location := the_location, new_location := None\<rparr>) w"

definition get_caching_duration :: "'v world \<Rightarrow> int" where
  "get_caching_duration w = caching_duration w"

definition are_migrations_happening :: "'v world \<Rightarrow> bool" where
  "are_migrations_happening w = (\<exists>s \<in> set (shards_coll w). status s \<in> set MIGRATION_PHASES)"

text \<open>
  The wall clock is given as the list of the values that the successive calls of
  \<^verbatim>\<open>time.time()\<close> return. The loop \<^verbatim>\<open>while time.time() < start_sync_time +
  api.get_caching_duration()\<close> takes one value at each test; a list that ends before a
  test fails gives \<open>None\<close>: the run is not determined by the values given.
\<close>

fun sync_while ::
  "string \<Rightarrow> 'v \<Rightarrow> int \<Rightarrow> int list \<Rightarrow> nat \<Rightarrow> 'v world \<Rightarrow> ('v world \<times> (error + nat)) option" where
  "sync_while the_collection key start_sync_time [] oplog_pos w = None"
| "sync_while the_collection key start_sync_time (now # clock) oplog_pos w =
     (if now < start_sync_time + get_caching_duration w
      then (case sync_from_oplog the_collection key oplog_pos w of
              (w1, Inl e) \<Rightarrow> Some (w1, Inl e)
            | (w1, Inr oplog_pos1) \<Rightarrow>
                sync_while the_collection key start_sync_time clock oplog_pos1 w1)
      else Some (w, Inr oplog_pos))"

text \<open>
  \<^verbatim>\<open>ShardMovementThread.run\<close>, in the three phases that its comments name. The
  state is the world and the manager; the result is the state left and the exception
  stored in the thread, if one was raised.
\<close>

definition delete_phase ::
  "string \<Rightarrow> ('v::linorder) \<Rightarrow> location \<Rightarrow> 'v world \<times> 'v manager
    \<Rightarrow> ('v world \<times> 'v manager) \<times> error option" where
  "delete_phase the_collection key the_new_location s =
     (case set_phase ''delete'' s of (w, manager) \<Rightarrow>
      case delete_source_data the_collection key True
             (set_shard_to_migration_status the_collection key POST_MIGRATION_DELETE w, manager) of
        (s1, Some e) \<Rightarrow> (s1, Some e)
      | (s1, None) \<Rightarrow>
          (case delete_source_data the_collection key False s1 of
             (s2, Some e) \<Rightarrow> (s2, Some e)
           | ((w2, manager2), None) \<Rightarrow>
               (set_phase ''complete''
                  (set_shard_at_rest the_collection key the_new_location w2, manager2), None)))"

definition sync_phase ::
  "string \<Rightarrow> ('v::linorder) \<Rightarrow> location \<Rightarrow> int list \<Rightarrow> nat \<Rightarrow> 'v world \<times> 'v manager
    \<Rightarrow> (('v world \<times> 'v manager) \<times> error option) option" where
  "sync_phase the_collection key the_new_location clock oplog_pos s =
     (case set_phase ''sync'' s of (w, manager) \<Rightarrow>
      case clock of
        [] \<Rightarrow> None
      | start_sync_time # clock1 \<Rightarrow>
          (case sync_from_oplog the_collection key oplog_pos
                  (set_shard_to_migration_status the_collection key MIGRATING_SYNC w) of
             (w1, Inl e) \<Rightarrow> Some ((w1, manager), Some e)
           | (w1, Inr oplog_pos1) \<Rightarrow>
               (case sync_while the_collection key start_sync_time clock1 oplog_pos1 w1 of
                  None \<Rightarrow> None
                | Some (w2, Inl e) \<Rightarrow> Some ((w2, manager), Some e)
                | Some (w2, Inr oplog_pos2) \<Rightarrow>
                    (case sync_from_oplog the_collection key oplog_pos2
                            (set_shard_to_migration_status the_collection key
                               POST_MIGRATION_PAUSED_AT_DESTINATION w2) of
                       (w3, Inl e) \<Rightarrow> Some ((w3, manager), Some e)
                     | (w3, Inr _) \<Rightarrow>
                         Some (delete_phase the_collection key the_new_location (w3, manager))))))"

definition run ::
  "string \<Rightarrow> ('v::linorder) \<Rightarrow> location \<Rightarrow> int list \<Rightarrow> 'v world \<times> 'v manager
    \<Rightarrow> (('v world \<times> 'v manager) \<times> error option) option" where
  "run the_collection key the_new_location clock s =
     (case set_phase ''copy'' s of (w, manager) \<Rightarrow>
      case api_start_migration the_collection key the_new_location w of
        (w1, Some e) \<Rightarrow> Some ((w1, manager), Some e)
      | (w1, None) \<Rightarrow>
          (case get_oplog_pos the_collection key w1 of
             Inl e \<Rightarrow> Some ((w1, manager), Some e)
           | Inr oplog_pos \<Rightarrow>
               (case do_copy the_collection key (w1, manager) of
                  (s1, Some e) \<Rightarrow> Some (s1, Some e)
                | (s1, None) \<Rightarrow>
                    sync_phase the_collection key the_new_location clock oplog_pos s1)))"

text \<open>\<^verbatim>\<open>manager.start_migration()\<close> starts the worker thread, which runs \<open>run\<close> beside
  the caller; here the thread started is recorded in the world.\<close>

definition manager_start_migration :: "'v manager \<Rightarrow> 'v world \<Rightarrow> 'v world" where
  "manager_start_migration manager w =
     w\<lparr>threads := threads w @
        [(collection_name manager, m_shard_key manager, m_new_location manager)]\<rparr>"

definition begin_migration ::
  "string \<Rightarrow> 'v \<Rightarrow> location \<Rightarrow> int option \<Rightarrow> int option \<Rightarrow> int \<Rightarrow> int \<Rightarrow> 'v world
    \<Rightarrow> 'v world \<times> (error + 'v manager)" where
  "begin_migration the_collection key the_new_location the_delete_throttle the_insert_throttle
     the_delete_batch_size the_insert_batch_size w =
     (if are_migrations_happening w
      then (w, Inl (Exception ''Cannot start migration when another migration is in progress''))
      else (let manager = ShardMovementManager the_collection key the_new_location
                            the_delete_throttle the_insert_throttle
                            the_delete_batch_size the_insert_batch_size
            in (manager_start_migration manager w, Inr manager)))"

section \<open>Concrete data\<close>

text \<open>A realm, a shard, documents, clusters and a world on which the theorems are
  run: the source cluster is \<^verbatim>\<open>A\<close>, every other cluster holds the destination's documents.\<close>

definition doc3 :: "int \<Rightarrow> int \<Rightarrow> int \<Rightarrow> int doc" where
  "doc3 i t v = [''_id'' \<mapsto> i, ''tenant_id'' \<mapsto> t, ''v'' \<mapsto> v]"

definition some_docs :: "int doc list \<Rightarrow> int collection" where
  "some_docs ds = \<lparr>docs = ds, index_information = []\<rparr>"

definition users_realm :: realm where
  "users_realm = \<lparr>realm_name = ''users'', shard_field = ''tenant_id''\<rparr>"

definition a_shard :: "int \<Rightarrow> shard_status \<Rightarrow> location option \<Rightarrow> int shard_metadata" where
  "a_shard key the_status the_new_location =
     \<lparr>realm = ''users'', shard_key = key, status = the_status, location = (''A'', ''appdb''),
      new_location = the_new_location\<rparr>"

definition a_node :: "int doc list \<Rightarrow> int entry list \<Rightarrow> int node" where
  "a_node ds the_oplog =
     \<lparr>databases = (\<lambda>db name. some_docs (if db = ''appdb'' \<and> name = ''users'' then ds else [])),
      oplog_rs = the_oplog, config_collections = Some []\<rparr>"

definition upserting :: "int update_one list \<Rightarrow> bool \<Rightarrow> int collection \<Rightarrow> int collection \<times> (error + int)" where
  "upserting ops ordered c =
     (c\<lparr>docs := docs c @ map (\<lambda>op. case op of UpdateOne f (Set the_set) u \<Rightarrow> f ++ the_set) ops\<rparr>,
      Inr (int (length ops)))"

definition a_world ::
  "int shard_metadata list \<Rightarrow> int doc list \<Rightarrow> int doc list \<Rightarrow> int entry list \<Rightarrow> int world" where
  "a_world the_shards source_docs target_docs the_oplog =
     \<lparr>realms = (\<lambda>_. users_realm), shards_coll = the_shards, caching_duration = 10,
      primary = (\<lambda>cluster. if cluster = ''A'' then a_node source_docs the_oplog
                           else a_node target_docs []),
      hidden_secondary = (\<lambda>_. None), server_bulk_write = upserting, requests = [], threads = []\<rparr>"

definition an_entry :: "nat \<Rightarrow> string \<Rightarrow> int doc \<Rightarrow> int entry" where
  "an_entry t the_op payload =
     \<lparr>entry_ts = t, entry_ns = ''appdb.users'', entry_op = the_op, entry_o = payload,
      entry_o2 = Some payload\<rparr>"


text \<open>The target key in the words of the specification: the shard key field list
  that the destination reports for the namespace if it reports it as sharded,
  otherwise \<^verbatim>\<open>_id\<close>.\<close>

definition reported_target_key :: "'v world \<Rightarrow> handle \<Rightarrow> string list" where
  "reported_target_key w collection =
     (case collection of (cluster, db, name) \<Rightarrow>
        (case config_collections (primary w cluster) of
           None \<Rightarrow> [''_id'']
         | Some entries \<Rightarrow>
             (case List.find (\<lambda>i. cfg_id i = db @ ''.'' @ name \<and> cfg_dropped i = Some False) entries of
                None \<Rightarrow> [''_id'']
              | Some info \<Rightarrow> (case cfg_key info of None \<Rightarrow> [''_id''] | Some key \<Rightarrow> key))))"

text \<open>The \<open>batch_size_fn\<close> of a batch size that nobody changes during the loop.\<close>

definition constantly :: "int \<Rightarrow> 's \<Rightarrow> int \<times> 's" where
  "constantly n s = (n, s)"

definition four_docs :: "int doc list" where
  "four_docs = [doc3 1 7 0, doc3 2 7 0, doc3 3 8 0, doc3 4 7 0]"

definition copying_world :: "int world" where
  "copying_world = a_world [a_shard 7 MIGRATING_COPY (Some (''B'', ''appdb''))] four_docs [] []"

definition a_manager :: "int \<Rightarrow> int manager" where
  "a_manager n = ShardMovementManager ''users'' 7 (''B'', ''appdb'') None None n n"


section \<open>The batches partition the cursor\<close>

lemma collect_apply: "collect b (bs, s) = ((bs @ [b], s), None)"
  by (simp add: collect_def)

lemma beside_apply: "beside f (bs, s) = (case f s of (n, s') \<Rightarrow> (n, (bs, s')))"
  by (simp add: beside_def)

lemma collected_loop:
  "fst (batched_loop (beside f) collect cursor batch (bs, s)) = (bs', s') \<Longrightarrow>
     concat bs' = concat bs @ batch @ cursor \<and> ([] \<in> set bs' \<longrightarrow> [] \<in> set bs)"
proof (induction cursor arbitrary: batch bs s)
  case Nil
  then show ?case
    by (auto simp: collect_apply split: if_splits)
next
  case (Cons r cursor)
  obtain n s1 where f: "f s = (n, s1)"
    by (cases "f s")
  show ?case
  proof (cases "n \<le> int (length (batch @ [r]))")
    case True
    with Cons.prems f
    have "fst (batched_loop (beside f) collect cursor [] (bs @ [batch @ [r]], s1)) = (bs', s')"
      by (simp add: beside_apply collect_apply)
    from Cons.IH [OF this] show ?thesis
      by auto
  next
    case False
    with Cons.prems f
    have "fst (batched_loop (beside f) collect cursor (batch @ [r]) (bs, s1)) = (bs', s')"
      by (simp add: beside_apply)
    from Cons.IH [OF this] show ?thesis
      by auto
  qed
qed

text \<open>
  C10. Whatever \<open>batch_size_fn\<close> returns, the batches yielded for a finite cursor, put
  one after the other in the order of their yield, are the cursor itself, so every
  record is in exactly one batch and keeps its place; and none of the batches is empty.
\<close>

theorem batches_partition_cursor:
  "concat (fst (yielded cursor batch_size_fn s)) = cursor \<and>
   [] \<notin> set (fst (yielded cursor batch_size_fn s))"
proof -
  obtain bs' s' where y: "yielded cursor batch_size_fn s = (bs', s')"
    by (cases "yielded cursor batch_size_fn s")
  then have "fst (batched_loop (beside batch_size_fn) collect cursor [] ([], s)) = (bs', s')"
    by (simp add: yielded_def batched_cursor_iterator_def)
  from collected_loop [OF this] y show ?thesis
    by simp
qed

section \<open>When the batch size is read\<close>

lemma collected_prefix:
  "fst (fst (batched_loop (beside f) collect cursor batch (bs, s))) =
     bs @ fst (fst (batched_loop (beside f) collect cursor batch ([], s)))"
proof (induction cursor arbitrary: batch bs s)
  case Nil
  show ?case by (simp add: collect_apply)
next
  case (Cons r cursor)
  obtain n s1 where f: "f s = (n, s1)"
    by (cases "f s")
  show ?case
  proof (cases "n \<le> int (length (batch @ [r]))")
    case True
    with f Cons.IH [of "[]" "bs @ [batch @ [r]]" s1] Cons.IH [of "[]" "[batch @ [r]]" s1]
    show ?thesis
      by (simp add: beside_apply collect_apply)
  next
    case False
    with f Cons.IH [of "batch @ [r]" bs s1]
    show ?thesis
      by (simp add: beside_apply)
  qed
qed

lemma beside_nth_read: "beside (nth_read sizes) (bs, k) = (sizes k, (bs, Suc k))"
  by (simp add: beside_apply nth_read_def)

lemma loop_closes:
  "sizes k \<le> int (length (batch @ [r])) \<Longrightarrow>
   batched_loop (beside (nth_read sizes)) collect (r # cursor) batch (bs, k) =
     batched_loop (beside (nth_read sizes)) collect cursor [] (bs @ [batch @ [r]], Suc k)"
  by (simp add: beside_nth_read collect_apply)

lemma loop_goes_on:
  "\<not> sizes k \<le> int (length (batch @ [r])) \<Longrightarrow>
   batched_loop (beside (nth_read sizes)) collect (r # cursor) batch (bs, k) =
     batched_loop (beside (nth_read sizes)) collect cursor (batch @ [r]) (bs, Suc k)"
  by (simp add: beside_nth_read)

lemma loop_ends:
  "batched_loop (beside (nth_read sizes)) collect [] batch (bs, k) =
     (if batch = [] then ((bs, k), None) else ((bs @ [batch], k), None))"
  by (simp add: collect_apply)

lemma collected_reads:
  "snd (fst (batched_loop (beside (nth_read sizes)) collect cursor batch (bs, k))) = k + length cursor"
proof (induction cursor arbitrary: batch bs k)
  case Nil
  show ?case by (simp add: collect_apply)
next
  case (Cons r cursor)
  show ?case
  proof (cases "sizes k \<le> int (length (batch @ [r]))")
    case True
    from loop_closes [of sizes k, OF this] Cons.IH show ?thesis by simp
  next
    case False
    from loop_goes_on [of sizes k, OF this] Cons.IH show ?thesis by simp
  qed
qed

lemma batch_closes:
  "0 < m \<Longrightarrow> m \<le> length cursor \<Longrightarrow>
   (\<And>j. 0 < j \<Longrightarrow> j < m \<Longrightarrow> int (length batch + j) < sizes (k + j - 1)) \<Longrightarrow>
   sizes (k + m - 1) \<le> int (length batch + m) \<or> m = length cursor \<Longrightarrow>
   batched_loop (beside (nth_read sizes)) collect cursor batch (bs, k) =
     batched_loop (beside (nth_read sizes)) collect (drop m cursor) []
       (bs @ [batch @ take m cursor], k + m)"
proof (induction cursor arbitrary: batch k m)
  case Nil
  then show ?case by simp
next
  case (Cons r cursor)
  show ?case
  proof (cases "m = 1")
    case True
    show ?thesis
    proof (cases "sizes k \<le> int (length (batch @ [r]))")
      case closes: True
      from loop_closes [of sizes k, OF this] True show ?thesis by simp
    next
      case False
      with Cons.prems(4) True have "cursor = []" by simp
      with loop_goes_on [of sizes k, OF False] True show ?thesis by (simp add: collect_apply)
    qed
  next
    case False
    with Cons.prems(1) obtain m' where m: "m = Suc m'" and m': "0 < m'"
      by (cases m) auto
    from Cons.prems(3) [of 1] m m' have open1: "\<not> sizes k \<le> int (length (batch @ [r]))"
      by simp
    have step: "batched_loop (beside (nth_read sizes)) collect (r # cursor) batch (bs, k) =
        batched_loop (beside (nth_read sizes)) collect cursor (batch @ [r]) (bs, Suc k)"
      using open1 by (rule loop_goes_on [of sizes k])
    have "batched_loop (beside (nth_read sizes)) collect cursor (batch @ [r]) (bs, Suc k) =
        batched_loop (beside (nth_read sizes)) collect (drop m' cursor) []
          (bs @ [(batch @ [r]) @ take m' cursor], Suc k + m')"
    proof (rule Cons.IH [OF m'])
      show "m' \<le> length cursor"
        using Cons.prems(2) m by simp
      show "int (length (batch @ [r]) + j) < sizes (Suc k + j - 1)" if "0 < j" "j < m'" for j
        using Cons.prems(3) [of "Suc j"] that m by simp
      show "sizes (Suc k + m' - 1) \<le> int (length (batch @ [r]) + m') \<or> m' = length cursor"
        using Cons.prems(4) m by simp
    qed
    with step m show ?thesis
      by simp
  qed
qed

text \<open>
  C1, as amended. The worker reads the batch size once for every record, right after
  appending the record to the batch in flight, not once for every batch: a run over
  a cursor makes as many reads as the cursor has records. A batch is yielded at the
  first record at which its length has reached the value read at that record, whatever
  was read at the records before; so a decrease read while a batch is being
  accumulated ends the batch in flight there (the whole cursor when no read closes it).
  The batch yielded is a run of consecutive records, and the batches that follow are
  those of the records left, read from the next value on.
\<close>

theorem batch_size_read_at_each_record:
  assumes "0 < m" and "m \<le> length cursor"
    and "\<And>j. 0 < j \<Longrightarrow> j < m \<Longrightarrow> int j < sizes (k + j - 1)"
    and "sizes (k + m - 1) \<le> int m \<or> m = length cursor"
  shows "snd (yielded cursor (nth_read sizes) k) = k + length cursor \<and>
         fst (yielded cursor (nth_read sizes) k) =
           take m cursor # fst (yielded (drop m cursor) (nth_read sizes) (k + m))"
proof -
  have "batched_loop (beside (nth_read sizes)) collect cursor [] ([], k) =
     batched_loop (beside (nth_read sizes)) collect (drop m cursor) []
       ([] @ [[] @ take m cursor], k + m)"
    by (rule batch_closes) (use assms in auto)
  then have "fst (fst (batched_loop (beside (nth_read sizes)) collect cursor [] ([], k))) =
     [take m cursor] @ fst (fst (batched_loop (beside (nth_read sizes)) collect (drop m cursor) [] ([], k + m)))"
    using collected_prefix [of "nth_read sizes" "drop m cursor" "[]" "[take m cursor]" "k + m"]
    by simp
  then show ?thesis
    by (simp add: yielded_def batched_cursor_iterator_def collected_reads)
qed

theorem batch_size_read_at_each_record_witness:
  "snd (yielded [1, 2, 3, 4, 5, 6 :: nat] (nth_read ((!) [5, 5, 2, 2, 2, 2])) 0) = 6 \<and>
   fst (yielded [1, 2, 3, 4, 5, 6 :: nat] (nth_read ((!) [5, 5, 2, 2, 2, 2])) 0) =
     [1, 2, 3] # fst (yielded [4, 5, 6] (nth_read ((!) [5, 5, 2, 2, 2, 2])) 3)"
proof -
  have open_before: "int j < [5, 5, 2, 2, 2, 2] ! (0 + j - 1)" if "0 < j" "j < 3" for j
  proof -
    from that have "j = 1 \<or> j = 2" by auto
    then show ?thesis by auto
  qed
  show ?thesis
    using batch_size_read_at_each_record [of 3 "[1, 2, 3, 4, 5, 6 :: nat]" "(!) [5, 5, 2, 2, 2, 2]" 0, OF _ _ open_before]
    by (simp add: numeral_3_eq_3)
qed

text \<open>
  C1, as stated, fails. Six records are drawn while the batch size shows 5 at the
  first two reads and 2 from the third read on: six reads are made for three batches,
  and the batch in flight when the size decreases is yielded with three records,
  neither the five it was begun for nor the two of the new size.
\<close>

theorem batch_size_read_mid_batch:
  "yielded [1, 2, 3, 4, 5, 6 :: nat] (nth_read ((!) [5, 5, 2, 2, 2, 2])) 0 =
     ([[1, 2, 3], [4, 5], [6]], 6) \<and>
   snd (yielded [1, 2, 3, 4, 5, 6 :: nat] (nth_read ((!) [5, 5, 2, 2, 2, 2])) 0) \<noteq>
     length (fst (yielded [1, 2, 3, 4, 5, 6 :: nat] (nth_read ((!) [5, 5, 2, 2, 2, 2])) 0))"
  by (simp add: yielded_def batched_cursor_iterator_def beside_nth_read collect_apply)

section \<open>Replaying the oplog\<close>








lemma matches_doc3:
  "matches (merge [''tenant_id'' \<mapsto> t] [''_id'' \<mapsto> i]) (doc3 i' t' v) = (i = i' \<and> t = t')"
  "matches [''_id'' \<mapsto> i] (doc3 i' t' v) = (i = i')"
  "matches [''tenant_id'' \<mapsto> t] (doc3 i' t' v) = (t = t')"
  by (auto simp: matches_def merge_def map_le_def doc3_def)


lemma replay_error:
  "replay_oplog_entry entry shard_selector source target = Inl e \<Longrightarrow>
     e = KeyError ''_id'' \<or> e = KeyError ''o2''"
  by (auto simp: replay_oplog_entry_def insert_doc_def Let_def
      split: if_splits option.splits sum.splits)

lemma sync_entries_error:
  "sync_entries cursor shard_selector source target oplog_pos w = (w', Inl e) \<Longrightarrow>
     e = KeyError ''_id'' \<or> e = KeyError ''o2''"
proof (induction cursor arbitrary: oplog_pos w)
  case Nil
  then show ?case by simp
next
  case (Cons entry cursor)
  then show ?case
    by (auto split: sum.splits dest: replay_error)
qed


text \<open>
  C3. For a shard whose metadata is found and names a new location, and a source oplog
  with an oldest entry: if the oldest entry's \<^verbatim>\<open>ts\<close> is greater than \<^verbatim>\<open>oplog_pos\<close>, the
  sync raises the error that \<^verbatim>\<open>oplog_pos\<close> is not in the oplog and leaves the world as it
  was, no entry applied; if it is at most \<^verbatim>\<open>oplog_pos\<close>, the sync is the replay of the
  tailed entries and does not end in that error. So the error is raised exactly when
  the oldest \<^verbatim>\<open>ts\<close> is strictly greater than \<^verbatim>\<open>oplog_pos\<close>.
\<close>

theorem oplog_window_missed:
  assumes "get_metadata_for_shard w (realm_name (get_realm_for_collection w the_collection)) key =
             Inr shard_metadata"
    and "location shard_metadata = (cluster, db)"
    and "new_location shard_metadata = Some the_new_location"
    and "oplog_rs (primary w cluster) = oldest_op # later"
  shows "(oplog_pos < entry_ts oldest_op \<longrightarrow>
            sync_from_oplog the_collection key oplog_pos w =
              (w, Inl (Exception ''Cannot sync from oplog as oplog_pos is not in it''))) \<and>
         (entry_ts oldest_op \<le> oplog_pos \<longrightarrow>
            sync_from_oplog the_collection key oplog_pos w =
              sync_entries (tail_oplog_for_collection w (cluster, db, the_collection) oplog_pos)
                [shard_field (get_realm_for_collection w the_collection) \<mapsto> key]
                (cluster, db, the_collection)
                (get_collection_from_location_string the_new_location the_collection)
                oplog_pos w \<and>
            snd (sync_from_oplog the_collection key oplog_pos w) \<noteq>
              Inl (Exception ''Cannot sync from oplog as oplog_pos is not in it''))"
proof (intro conjI impI)
  assume "oplog_pos < entry_ts oldest_op"
  with assms show "sync_from_oplog the_collection key oplog_pos w =
      (w, Inl (Exception ''Cannot sync from oplog as oplog_pos is not in it''))"
    by (simp add: sync_from_oplog_def oplog_still_contains_ts_def
        get_collection_from_location_string_def)
next
  assume "entry_ts oldest_op \<le> oplog_pos"
  with assms show eq: "sync_from_oplog the_collection key oplog_pos w =
      sync_entries (tail_oplog_for_collection w (cluster, db, the_collection) oplog_pos)
        [shard_field (get_realm_for_collection w the_collection) \<mapsto> key]
        (cluster, db, the_collection)
        (get_collection_from_location_string the_new_location the_collection)
        oplog_pos w"
    by (simp add: sync_from_oplog_def oplog_still_contains_ts_def
        get_collection_from_location_string_def Let_def)
  show "snd (sync_from_oplog the_collection key oplog_pos w) \<noteq>
      Inl (Exception ''Cannot sync from oplog as oplog_pos is not in it'')"
  proof
    assume "snd (sync_from_oplog the_collection key oplog_pos w) =
      Inl (Exception ''Cannot sync from oplog as oplog_pos is not in it'')"
    with eq obtain w' where "sync_entries (tail_oplog_for_collection w (cluster, db, the_collection) oplog_pos)
        [shard_field (get_realm_for_collection w the_collection) \<mapsto> key]
        (cluster, db, the_collection)
        (get_collection_from_location_string the_new_location the_collection)
        oplog_pos w = (w', Inl (Exception ''Cannot sync from oplog as oplog_pos is not in it''))"
      by (metis prod.collapse)
    from sync_entries_error [OF this] show False
      by simp
  qed
qed

lemma a_world_metadata:
  "get_metadata_for_shard (a_world [a_shard 7 st nl] ss ts ol)
     (realm_name (get_realm_for_collection (a_world [a_shard 7 st nl] ss ts ol) c)) 7 =
   Inr (a_shard 7 st nl)"
  by (simp add: get_metadata_for_shard_def get_realm_for_collection_def a_world_def a_shard_def
      users_realm_def)

theorem oplog_window_missed_witness:
  "sync_from_oplog ''users'' 7 3
     (a_world [a_shard 7 MIGRATING_SYNC (Some (''B'', ''appdb''))] [] [] [an_entry 5 ''i'' (doc3 1 8 0)]) =
   (a_world [a_shard 7 MIGRATING_SYNC (Some (''B'', ''appdb''))] [] [] [an_entry 5 ''i'' (doc3 1 8 0)],
    Inl (Exception ''Cannot sync from oplog as oplog_pos is not in it'')) \<and>
   snd (sync_from_oplog ''users'' 7 6
     (a_world [a_shard 7 MIGRATING_SYNC (Some (''B'', ''appdb''))] [] [] [an_entry 5 ''i'' (doc3 1 8 0)])) \<noteq>
    Inl (Exception ''Cannot sync from oplog as oplog_pos is not in it'')"
proof -
  let ?w = "a_world [a_shard 7 MIGRATING_SYNC (Some (''B'', ''appdb''))] [] [] [an_entry 5 ''i'' (doc3 1 8 0)]"
  have loc: "location (a_shard 7 MIGRATING_SYNC (Some (''B'', ''appdb''))) = (''A'', ''appdb'')"
    and new: "new_location (a_shard 7 MIGRATING_SYNC (Some (''B'', ''appdb''))) = Some (''B'', ''appdb'')"
    by (simp_all add: a_shard_def)
  have oplog: "oplog_rs (primary ?w ''A'') = an_entry 5 ''i'' (doc3 1 8 0) # []"
    by (simp add: a_world_def a_node_def)
  have ts: "entry_ts (an_entry 5 ''i'' (doc3 1 8 0)) = 5"
    by (simp add: an_entry_def)
  from oplog_window_missed [where the_collection = "''users''" and oplog_pos = 3, OF a_world_metadata loc new oplog]
    oplog_window_missed [where the_collection = "''users''" and oplog_pos = 6, OF a_world_metadata loc new oplog]
  show ?thesis
    unfolding ts by linarith
qed

section \<open>The position in the oplog, the preconditions and the guard\<close>








text \<open>
  C6. When the shard's persisted status is not \<^verbatim>\<open>MIGRATING_COPY\<close>, the copy engine
  raises its error and leaves the world (every collection, the routing store, the
  requests sent) and the manager with its counters as they were; when the status is
  not \<^verbatim>\<open>POST_MIGRATION_DELETE\<close>, so does the delete engine.
\<close>

theorem precondition_failure_writes_nothing:
  assumes "get_metadata_for_shard w (realm_name (get_realm_for_collection w the_collection)) key =
             Inr shard_metadata"
  shows "(status shard_metadata \<noteq> MIGRATING_COPY \<longrightarrow>
            do_copy the_collection key (w, manager) =
              ((w, manager), Some (Exception ''Shard not in copy state (phase 1)''))) \<and>
         (status shard_metadata \<noteq> POST_MIGRATION_DELETE \<longrightarrow>
            delete_source_data the_collection key use_hidden_secondary (w, manager) =
              ((w, manager), Some (Exception ''Shard not in delete state'')))"
  using assms by (simp add: do_copy_def delete_source_data_def)

theorem precondition_failure_witness:
  "do_copy ''users'' 7
     (a_world [a_shard 7 MIGRATING_SYNC (Some (''B'', ''appdb''))] [doc3 1 7 0] [] [],
      ShardMovementManager ''users'' 7 (''B'', ''appdb'') None None 1000 1000) =
   ((a_world [a_shard 7 MIGRATING_SYNC (Some (''B'', ''appdb''))] [doc3 1 7 0] [] [],
     ShardMovementManager ''users'' 7 (''B'', ''appdb'') None None 1000 1000),
    Some (Exception ''Shard not in copy state (phase 1)'')) \<and>
   delete_source_data ''users'' 7 True
     (a_world [a_shard 7 MIGRATING_SYNC (Some (''B'', ''appdb''))] [doc3 1 7 0] [] [],
      ShardMovementManager ''users'' 7 (''B'', ''appdb'') None None 1000 1000) =
   ((a_world [a_shard 7 MIGRATING_SYNC (Some (''B'', ''appdb''))] [doc3 1 7 0] [] [],
     ShardMovementManager ''users'' 7 (''B'', ''appdb'') None None 1000 1000),
    Some (Exception ''Shard not in delete state''))"
  using precondition_failure_writes_nothing [OF a_world_metadata,
      where the_collection = "''users''"
        and manager = "ShardMovementManager ''users'' 7 (''B'', ''appdb'') None None 1000 1000"
        and use_hidden_secondary = True]
  by (simp add: a_shard_def)

text \<open>
  C7. When some shard of the routing store is in a status of \<^verbatim>\<open>MIGRATION_PHASES\<close>, the
  entry point raises the error that another migration is in progress and leaves the
  world as it was: no worker thread is started and nothing is written for the shard
  requested. When every shard is at rest, it makes a manager from its arguments
  (counters at zero, no phase), starts the worker thread and returns the manager.
\<close>

theorem migration_in_progress_refused:
  "(s \<in> set (shards_coll w) \<and> status s \<in> set MIGRATION_PHASES \<longrightarrow>
      begin_migration the_collection key the_new_location the_delete_throttle the_insert_throttle
        the_delete_batch_size the_insert_batch_size w =
      (w, Inl (Exception ''Cannot start migration when another migration is in progress''))) \<and>
   ((\<forall>s \<in> set (shards_coll w). status s = AT_REST) \<longrightarrow>
      begin_migration the_collection key the_new_location the_delete_throttle the_insert_throttle
        the_delete_batch_size the_insert_batch_size w =
      (w\<lparr>threads := threads w @ [(the_collection, key, the_new_location)]\<rparr>,
       Inr (ShardMovementManager the_collection key the_new_location the_delete_throttle
              the_insert_throttle the_delete_batch_size the_insert_batch_size)))"
proof (intro conjI impI)
  assume "s \<in> set (shards_coll w) \<and> status s \<in> set MIGRATION_PHASES"
  then have "are_migrations_happening w"
    unfolding are_migrations_happening_def by blast
  then show "begin_migration the_collection key the_new_location the_delete_throttle the_insert_throttle
        the_delete_batch_size the_insert_batch_size w =
      (w, Inl (Exception ''Cannot start migration when another migration is in progress''))"
    by (simp add: begin_migration_def)
next
  assume "\<forall>s \<in> set (shards_coll w). status s = AT_REST"
  then have "\<not> are_migrations_happening w"
    by (auto simp: are_migrations_happening_def MIGRATION_PHASES_def)
  then show "begin_migration the_collection key the_new_location the_delete_throttle the_insert_throttle
        the_delete_batch_size the_insert_batch_size w =
      (w\<lparr>threads := threads w @ [(the_collection, key, the_new_location)]\<rparr>,
       Inr (ShardMovementManager the_collection key the_new_location the_delete_throttle
              the_insert_throttle the_delete_batch_size the_insert_batch_size))"
    by (simp add: begin_migration_def manager_start_migration_def ShardMovementManager_def)
qed

theorem migration_in_progress_witness:
  "begin_migration ''users'' 8 (''B'', ''appdb'') None None 1000 1000
     (a_world [a_shard 7 MIGRATING_COPY (Some (''B'', ''appdb'')), a_shard 8 AT_REST None] [] [] []) =
   (a_world [a_shard 7 MIGRATING_COPY (Some (''B'', ''appdb'')), a_shard 8 AT_REST None] [] [] [],
    Inl (Exception ''Cannot start migration when another migration is in progress'')) \<and>
   begin_migration ''users'' 8 (''B'', ''appdb'') None None 1000 1000
     (a_world [a_shard 7 AT_REST None, a_shard 8 AT_REST None] [] [] []) =
   ((a_world [a_shard 7 AT_REST None, a_shard 8 AT_REST None] [] [] [])
      \<lparr>threads := [(''users'', 8, (''B'', ''appdb''))]\<rparr>,
    Inr (ShardMovementManager ''users'' 8 (''B'', ''appdb'') None None 1000 1000))"
  using migration_in_progress_refused
      [of "a_shard 7 MIGRATING_COPY (Some (''B'', ''appdb''))"
        "a_world [a_shard 7 MIGRATING_COPY (Some (''B'', ''appdb'')), a_shard 8 AT_REST None] [] [] []"
        "''users''" 8 "(''B'', ''appdb'')" None None 1000 1000]
    migration_in_progress_refused
      [of _ "a_world [a_shard 7 AT_REST None, a_shard 8 AT_REST None] [] [] []"
        "''users''" 8 "(''B'', ''appdb'')" None None 1000 1000]
  by (simp add: a_world_def a_shard_def MIGRATION_PHASES_def)








section \<open>The bulk writes of the copy\<close>

lemma collected_closes:
  "n \<le> int (length (batch @ [r])) \<Longrightarrow>
   batched_loop (beside (constantly n)) collect (r # cursor) batch (bs, s) =
     batched_loop (beside (constantly n)) collect cursor [] (bs @ [batch @ [r]], s)"
  by (simp add: beside_apply collect_apply constantly_def)

lemma collected_goes_on:
  "\<not> n \<le> int (length (batch @ [r])) \<Longrightarrow>
   batched_loop (beside (constantly n)) collect (r # cursor) batch (bs, s) =
     batched_loop (beside (constantly n)) collect cursor (batch @ [r]) (bs, s)"
  by (simp add: beside_apply constantly_def)

lemma requests_put_coll: "requests (put_coll w h c) = requests w"
  by (cases h) (simp add: put_coll_def)

lemma copy_batch_requests:
  "copy_batch target_collection target_key batch (w, manager) = ((w', manager'), r) \<Longrightarrow>
     requests w' = requests w @ [BulkWrite target_collection (batch_of_upsert_ops batch target_key) True] \<and>
     insert_batch_size manager' = insert_batch_size manager"
  by (auto simp: copy_batch_def bulk_write_def requests_put_coll inc_inserted_def
      split: prod.splits sum.splits)

lemma find_filter: "List.find P xs = (case filter P xs of [] \<Rightarrow> None | x # _ \<Rightarrow> Some x)"
  by (induction xs) auto

lemma sniffed_key:
  "sniff_mongos_shard_key w collection = Inr sniffed \<Longrightarrow> sniffed \<noteq> Some [] \<Longrightarrow>
     or_id sniffed = reported_target_key w collection"
  by (cases collection)
    (auto simp: sniff_mongos_shard_key_def reported_target_key_def or_id_def find_filter
      split: option.splits list.splits)

lemma copy_loop_requests:
  fixes w :: "'v world"
  assumes "batched_loop (\<lambda>(w, manager). (insert_batch_size manager, (w, manager)))
             (copy_batch target_collection target_key) cursor batch (w, manager) = ((w', manager'), r)"
  shows "\<exists>k \<le> length (fst (fst (batched_loop (beside (constantly (insert_batch_size manager))) collect
                          cursor batch ([], ())))).
           requests w' = requests w @
             map (\<lambda>b. BulkWrite target_collection (batch_of_upsert_ops b target_key) True)
               (take k (fst (fst (batched_loop (beside (constantly (insert_batch_size manager))) collect
                          cursor batch ([], ()))))) \<and>
           (r = None \<longrightarrow> k = length (fst (fst (batched_loop (beside (constantly (insert_batch_size manager)))
                          collect cursor batch ([], ())))))"
  using assms
proof (induction cursor arbitrary: batch w manager)
  case Nil
  show ?case
  proof (cases "batch = []")
    case True
    with Nil show ?thesis by simp
  next
    case False
    with Nil have "copy_batch target_collection target_key batch (w, manager) = ((w', manager'), r)"
      by simp
    from copy_batch_requests [OF this] False show ?thesis
      by (intro exI [of _ 1]) (simp add: collect_apply)
  qed
next
  case (Cons doc0 cursor)
  let ?n = "insert_batch_size manager"
  let ?f = "\<lambda>b. BulkWrite target_collection (batch_of_upsert_ops b target_key) True"
  show ?case
  proof (cases "?n \<le> int (length (batch @ [doc0]))")
    case False
    with Cons.prems have "batched_loop (\<lambda>(w, manager). (insert_batch_size manager, (w, manager)))
        (copy_batch target_collection target_key) cursor (batch @ [doc0]) (w, manager) = ((w', manager'), r)"
      by simp
    from Cons.IH [OF this] False show ?thesis
      by (simp only: collected_goes_on [OF False])
  next
    case True
    have collected: "fst (fst (batched_loop (beside (constantly ?n)) collect (doc0 # cursor) batch ([], ()))) =
        (batch @ [doc0]) # fst (fst (batched_loop (beside (constantly ?n)) collect cursor [] ([], ())))"
      using collected_prefix [of "constantly ?n" cursor "[]" "[batch @ [doc0]]" "()"]
      by (simp only: collected_closes [OF True]) simp
    obtain w1 manager1 r1 where
      body: "copy_batch target_collection target_key (batch @ [doc0]) (w, manager) = ((w1, manager1), r1)"
      by (metis prod.collapse)
    note sent = copy_batch_requests [OF body]
    show ?thesis
    proof (cases r1)
      case (Some e)
      with Cons.prems True body have "w' = w1" and "r = Some e"
        by simp_all
      with sent collected show ?thesis
        by (intro exI [of _ 1]) simp
    next
      case None
      with Cons.prems True body have "batched_loop (\<lambda>(w, manager). (insert_batch_size manager, (w, manager)))
          (copy_batch target_collection target_key) cursor [] (w1, manager1) = ((w', manager'), r)"
        by simp
      from Cons.IH [OF this] sent obtain k where
        k: "k \<le> length (fst (fst (batched_loop (beside (constantly ?n)) collect cursor [] ([], ()))))"
          and reqs: "requests w' = (requests w @ [?f (batch @ [doc0])]) @
            map ?f (take k (fst (fst (batched_loop (beside (constantly ?n)) collect cursor [] ([], ())))))"
          and full: "r = None \<longrightarrow> k = length (fst (fst (batched_loop (beside (constantly ?n)) collect cursor [] ([], ()))))"
        by auto
      with collected show ?thesis
        by (intro exI [of _ "Suc k"]) simp
    qed
  qed
qed

lemma pick_restrict: "pick target_key d = d |` set target_key"
  by (rule ext) (simp add: pick_def restrict_map_def)

lemma without_id_restrict: "without_id d = d |` (- {''_id''})"
  by (rule ext) (simp add: without_id_def restrict_map_def)

lemma do_copy_loop:
  assumes "get_metadata_for_shard w (realm_name (get_realm_for_collection w the_collection)) key =
             Inr shard_metadata"
    and "status shard_metadata = MIGRATING_COPY"
    and "new_location shard_metadata = Some the_new_location"
    and "sniff_mongos_shard_key w (get_collection_from_location_string the_new_location the_collection) =
           Inr sniffed"
  shows "do_copy the_collection key (w, manager) =
           batched_loop (\<lambda>(w, manager). (insert_batch_size manager, (w, manager)))
             (copy_batch (get_collection_from_location_string the_new_location the_collection)
                (or_id sniffed))
             (shard_cursor
                (read_coll (get_source_collection_for_reading w shard_metadata the_collection True))
                (shard_field (get_realm_for_collection w the_collection)) key)
             [] (w, manager)"
  using assms by (simp add: do_copy_def batched_cursor_iterator_def Let_def)

text \<open>
  C5. In a copy that passes its precondition, the requests sent are one bulk write
  for each batch drained, in the order of the batches and each with \<^verbatim>\<open>ordered=True\<close>;
  a bulk write that fails ends the copy, so the batches after it are not drained. Each
  bulk write holds, for each document of its batch in order, an \<^verbatim>\<open>UpdateOne\<close> with
  \<^verbatim>\<open>upsert=True\<close> whose filter is the document restricted to the fields of the target
  key and whose update is \<^verbatim>\<open>$set\<close> of the document without \<^verbatim>\<open>_id\<close>. The target key is
  the key that the destination's \<^verbatim>\<open>config.collections\<close> reports for the namespace, and
  \<^verbatim>\<open>['_id']\<close> when reading it fails or no entry that is not dropped is found. (A key
  reported with no field at all would be replaced by \<^verbatim>\<open>['_id']\<close>; a sharded namespace
  has at least one.)
\<close>

theorem copy_sends_one_bulk_upsert_per_batch:
  fixes w :: "('v::linorder) world" and the_collection key shard_metadata the_new_location manager
  defines "the_realm \<equiv> get_realm_for_collection w the_collection"
  assumes md: "get_metadata_for_shard w (realm_name the_realm) key = Inr shard_metadata"
    and st: "status shard_metadata = MIGRATING_COPY"
    and nl: "new_location shard_metadata = Some the_new_location"
  defines "target \<equiv> get_collection_from_location_string the_new_location the_collection"
  assumes sn: "sniff_mongos_shard_key w target = Inr sniffed" and ne: "sniffed \<noteq> Some []"
  defines "target_key \<equiv> reported_target_key w target"
    and "cursor \<equiv> shard_cursor
           (read_coll (get_source_collection_for_reading w shard_metadata the_collection True))
           (shard_field the_realm) key"
  defines "batches \<equiv> fst (yielded cursor (constantly (insert_batch_size manager)) ())"
  assumes copied: "do_copy the_collection key (w, manager) = ((w', manager'), r)"
  shows "\<exists>k \<le> length batches.
           requests w' = requests w @
             map (\<lambda>batch. BulkWrite target
                    (map (\<lambda>d. UpdateOne (d |` set target_key) (Set (d |` (- {''_id''}))) True) batch)
                    True)
               (take k batches) \<and>
           (r = None \<longrightarrow> k = length batches)"
proof -
  have key: "or_id sniffed = target_key"
    unfolding target_key_def using sn ne by (rule sniffed_key)
  have "batched_loop (\<lambda>(w, manager). (insert_batch_size manager, (w, manager)))
          (copy_batch target target_key) cursor [] (w, manager) = ((w', manager'), r)"
    using do_copy_loop [OF md [unfolded the_realm_def] st nl sn [unfolded target_def]] copied key
    by (simp add: the_realm_def target_def cursor_def)
  from copy_loop_requests [OF this] show ?thesis
    by (simp add: batches_def yielded_def batched_cursor_iterator_def batch_of_upsert_ops_def
        pick_restrict without_id_restrict)
qed

lemma copying_world_cursor:
  "shard_cursor (read_coll (get_source_collection_for_reading copying_world
      (a_shard 7 MIGRATING_COPY (Some (''B'', ''appdb''))) ''users'' True)) ''tenant_id'' 7 =
   [doc3 1 7 0, doc3 2 7 0, doc3 4 7 0]"
  by (simp add: shard_cursor_def read_coll_def get_source_collection_for_reading_def copying_world_def
      a_world_def a_node_def a_shard_def some_docs_def four_docs_def find_docs_def matches_doc3
      shard_field_id_index_def)

lemma copying_world_sniff:
  "sniff_mongos_shard_key copying_world (''B'', ''appdb'', ''users'') = Inr None"
  by (simp add: sniff_mongos_shard_key_def copying_world_def a_world_def a_node_def)

lemma copying_world_key:
  "reported_target_key copying_world (''B'', ''appdb'', ''users'') = [''_id'']"
  by (simp add: reported_target_key_def copying_world_def a_world_def a_node_def)

lemma server_after_bulk_write:
  "server_bulk_write (fst (bulk_write w h ops ordered)) = server_bulk_write w"
  by (cases h) (simp add: bulk_write_def put_coll_def split: prod.splits)

lemma upserting_succeeds:
  "server_bulk_write w = upserting \<Longrightarrow> snd (bulk_write w h ops ordered) = Inr (int (length ops))"
  by (simp add: bulk_write_def upserting_def split: prod.splits)

lemma upserting_batch:
  assumes "server_bulk_write w = upserting"
  shows "snd (copy_batch target target_key batch (w, manager)) = None \<and>
         server_bulk_write (fst (fst (copy_batch target target_key batch (w, manager)))) = upserting"
proof -
  obtain w1 res where b: "bulk_write w target (batch_of_upsert_ops batch target_key) True = (w1, res)"
    by (cases "bulk_write w target (batch_of_upsert_ops batch target_key) True")
  with upserting_succeeds [OF assms, of target "batch_of_upsert_ops batch target_key" True]
    server_after_bulk_write [of w target "batch_of_upsert_ops batch target_key" True] assms
  show ?thesis
    by (simp add: copy_batch_def)
qed

lemma upserting_loop:
  "server_bulk_write w = upserting \<Longrightarrow>
   snd (batched_loop (\<lambda>(w, manager). (insert_batch_size manager, (w, manager)))
          (copy_batch target target_key) cursor batch (w, manager)) = None"
proof (induction cursor arbitrary: batch w manager)
  case Nil
  with upserting_batch [of w target target_key batch manager] show ?case
    by simp
next
  case (Cons d cursor)
  obtain w1 manager1 r1 where
    body: "copy_batch target target_key (batch @ [d]) (w, manager) = ((w1, manager1), r1)"
    by (metis prod.collapse)
  with upserting_batch [OF Cons.prems, of target target_key "batch @ [d]" manager]
  have "r1 = None" and "server_bulk_write w1 = upserting"
    by simp_all
  with body Cons.IH [of w1 "[]" manager1] Cons.IH [OF Cons.prems, of "batch @ [d]" manager]
  show ?case
    by (simp add: Let_def)
qed

theorem copy_sends_one_bulk_upsert_per_batch_witness:
  "snd (do_copy ''users'' 7 (copying_world, a_manager 2)) = None \<and>
   requests (fst (fst (do_copy ''users'' 7 (copying_world, a_manager 2)))) =
     map (\<lambda>batch. BulkWrite (''B'', ''appdb'', ''users'')
            (map (\<lambda>d. UpdateOne (d |` {''_id''}) (Set (d |` (- {''_id''}))) True) batch) True)
       [[doc3 1 7 0, doc3 2 7 0], [doc3 4 7 0]]"
proof -
  let ?md = "a_shard 7 MIGRATING_COPY (Some (''B'', ''appdb''))"
  have st: "status ?md = MIGRATING_COPY" and nl: "new_location ?md = Some (''B'', ''appdb'')"
    by (simp_all add: a_shard_def)
  have md: "get_metadata_for_shard copying_world
      (realm_name (get_realm_for_collection copying_world ''users'')) 7 = Inr ?md"
    unfolding copying_world_def by (rule a_world_metadata)
  have sn: "sniff_mongos_shard_key copying_world
      (get_collection_from_location_string (''B'', ''appdb'') ''users'') = Inr None"
    by (simp add: get_collection_from_location_string_def copying_world_sniff)
  have batches: "fst (yielded [doc3 1 7 0, doc3 2 7 0, doc3 4 7 0] (constantly 2) ()) =
      [[doc3 1 7 0, doc3 2 7 0], [doc3 4 7 0]]"
    by (simp add: yielded_def batched_cursor_iterator_def beside_apply collect_apply constantly_def)
  have server: "server_bulk_write copying_world = upserting"
    by (simp add: copying_world_def a_world_def)
  have succeeds: "snd (do_copy ''users'' 7 (copying_world, a_manager 2)) = None"
    by (simp only: do_copy_loop [OF md st nl sn] upserting_loop [OF server])
  have run: "do_copy ''users'' 7 (copying_world, a_manager 2) =
      ((fst (fst (do_copy ''users'' 7 (copying_world, a_manager 2))),
        snd (fst (do_copy ''users'' 7 (copying_world, a_manager 2)))),
       snd (do_copy ''users'' 7 (copying_world, a_manager 2)))"
    by simp
  have realm: "shard_field (get_realm_for_collection copying_world ''users'') = ''tenant_id''"
    by (simp add: get_realm_for_collection_def copying_world_def a_world_def users_realm_def)
  have size: "insert_batch_size (a_manager 2) = 2"
    by (simp add: a_manager_def ShardMovementManager_def)
  have none: "requests copying_world = []"
    by (simp add: copying_world_def a_world_def)
  from copy_sends_one_bulk_upsert_per_batch [OF md st nl sn _ run] succeeds
  show ?thesis
    by (simp add: realm copying_world_cursor size batches none
        get_collection_from_location_string_def copying_world_key)
qed

section \<open>Migrating an empty shard\<close>

















end
